theory Spec2Isabelle
  imports Complex_Main "HOL-Library.Word"
begin

section \<open>Data model of FINALEVERYTHING2.ino\<close>

text \<open>
  The sketch keeps its state in global variables and in one local of
  \<^verbatim>\<open>motionDetectionTask\<close> that lives across loop iterations (\<^verbatim>\<open>lastBlinkRate\<close>).
  \<^verbatim>\<open>uint8_t\<close> and \<^verbatim>\<open>uint32_t\<close> are words, so \<^verbatim>\<open>millis()\<close> differences wrap
  around as in C.
\<close>

type_synonym uint8_t = "8 word"
type_synonym uint32_t = "32 word"

subsection \<open>Floating point\<close>

text \<open>
  A value of the C type \<^verbatim>\<open>float\<close> is a finite number, an infinity or NaN. A finite value
  is represented by the real number it denotes; the binary32 values are the finite ones
  that rounding to 24 bits leaves unchanged, and everything below is stated for every
  finite value.
\<close>

datatype float = Finite real | PlusInfinity | MinusInfinity | NaN

text \<open>The comparisons \<^verbatim>\<open>a >= c\<close> and \<^verbatim>\<open>a > c\<close> of a float with a finite constant:
  false on NaN.\<close>

definition float_ge :: "float \<Rightarrow> real \<Rightarrow> bool" where
  "float_ge a c =
     (case a of Finite x \<Rightarrow> c \<le> x | PlusInfinity \<Rightarrow> True
      | MinusInfinity \<Rightarrow> False | NaN \<Rightarrow> False)"

definition float_gt :: "float \<Rightarrow> real \<Rightarrow> bool" where
  "float_gt a c =
     (case a of Finite x \<Rightarrow> c < x | PlusInfinity \<Rightarrow> True
      | MinusInfinity \<Rightarrow> False | NaN \<Rightarrow> False)"

text \<open>Rounding to the nearest integer, ties to the even one.\<close>

definition round_ties_even :: "real \<Rightarrow> int" where
  "round_ties_even x =
     (let n = \<lfloor>x\<rfloor>; d = x - of_int n
      in if d < 1 / 2 then n else if d > 1 / 2 then n + 1
         else if even n then n else n + 1)"

text \<open>
  IEEE 754 rounding to nearest, ties to even, to a significand of \<open>p\<close> bits: the value
  is scaled by powers of two into the binade from \<open>2 ^ p / 2\<close> to \<open>2 ^ p\<close>, where the
  representable numbers are the integers, rounded there and scaled back. The exponent is
  not bounded: the arithmetic of the threshold calculator on a binary32 temperature
  between 22 and 30 stays between \<open>2 ^ -23\<close> and 16, inside the normal range of both
  formats, where this is the rounding of the hardware.
\<close>

function fround :: "nat \<Rightarrow> real \<Rightarrow> real" where
  "fround p x =
     (if x = 0 then 0
      else if 2 ^ p \<le> \<bar>x\<bar> then 2 * fround p (x / 2)
      else if \<bar>x\<bar> < 2 ^ p / 2 then fround p (2 * x) / 2
      else of_int (round_ties_even x))"
  by pat_completeness auto
termination
proof (relation "measure (\<lambda>(p, x). if 2 ^ p \<le> \<bar>x\<bar> then nat \<lfloor>\<bar>x\<bar>\<rfloor>
                   else if \<bar>x\<bar> < 2 ^ p / 2 then nat \<lceil>(2 ^ p / 2) / \<bar>x\<bar>\<rceil> else 0)")
  show "wf (measure (\<lambda>(p, x). if 2 ^ p \<le> \<bar>x\<bar> then nat \<lfloor>\<bar>x\<bar>\<rfloor>
                   else if \<bar>x\<bar> < 2 ^ p / 2 then nat \<lceil>(2 ^ p / 2) / \<bar>x\<bar>\<rceil> else 0))"
    by simp
next
  fix p :: nat and x :: real
  assume "x \<noteq> 0" and big: "2 ^ p \<le> \<bar>x\<bar>"
  have "(1::real) \<le> 2 ^ p" by simp
  then have x1: "1 \<le> \<bar>x\<bar>" using big by linarith
  have nl: "\<not> \<bar>x / 2\<bar> < 2 ^ p / 2" using big by simp
  have n: "1 \<le> \<lfloor>\<bar>x\<bar>\<rfloor>" using x1 by (simp add: le_floor_iff)
  have "\<bar>x\<bar> < of_int \<lfloor>\<bar>x\<bar>\<rfloor> + 1" by linarith
  then have "\<bar>x\<bar> / 2 < of_int \<lfloor>\<bar>x\<bar>\<rfloor>" using n by linarith
  then have "\<lfloor>\<bar>x\<bar> / 2\<rfloor> < \<lfloor>\<bar>x\<bar>\<rfloor>" by (simp add: floor_less_iff)
  then have "nat \<lfloor>\<bar>x\<bar> / 2\<rfloor> < nat \<lfloor>\<bar>x\<bar>\<rfloor>" using n by linarith
  moreover have "0 < nat \<lfloor>\<bar>x\<bar>\<rfloor>" using n by simp
  ultimately show "((p, x / 2), (p, x)) \<in> measure (\<lambda>(p, x). if 2 ^ p \<le> \<bar>x\<bar> then nat \<lfloor>\<bar>x\<bar>\<rfloor>
                   else if \<bar>x\<bar> < 2 ^ p / 2 then nat \<lceil>(2 ^ p / 2) / \<bar>x\<bar>\<rceil> else 0)"
    using big nl by simp
next
  fix p :: nat and x :: real
  assume x0: "x \<noteq> 0" and nb: "\<not> 2 ^ p \<le> \<bar>x\<bar>" and small: "\<bar>x\<bar> < 2 ^ p / 2"
  define y where "y = (2 ^ p / 2) / \<bar>x\<bar>"
  have ax: "0 < \<bar>x\<bar>" using x0 by simp
  have y1: "1 < y" using small ax by (simp add: y_def less_divide_eq)
  have nb2: "\<not> 2 ^ p \<le> \<bar>2 * x\<bar>" using small by simp
  have pos: "0 < nat \<lceil>y\<rceil>" using y1 by (simp add: less_ceiling_iff)
  have halve: "nat \<lceil>(2 ^ p / 2) / \<bar>2 * x\<bar>\<rceil> < nat \<lceil>y\<rceil>" if "\<bar>2 * x\<bar> < 2 ^ p / 2"
  proof -
    have y2: "2 < y" using that ax by (simp add: y_def less_divide_eq)
    have "y \<le> of_int \<lceil>y\<rceil>" by linarith
    then have "y / 2 \<le> of_int \<lceil>y\<rceil> - 1" using y2 by linarith
    then have "y / 2 \<le> of_int (\<lceil>y\<rceil> - 1)" by simp
    then have "\<lceil>y / 2\<rceil> \<le> \<lceil>y\<rceil> - 1" by (simp only: ceiling_le_iff)
    moreover have "0 < \<lceil>y\<rceil>" using y2 by (simp add: less_ceiling_iff)
    ultimately have l: "nat \<lceil>y / 2\<rceil> < nat \<lceil>y\<rceil>" by linarith
    have "(2 ^ p / 2) / \<bar>2 * x\<bar> = y / 2" by (simp add: y_def abs_mult)
    then show ?thesis using l by (simp only:)
  qed
  show "((p, 2 * x), (p, x)) \<in> measure (\<lambda>(p, x). if 2 ^ p \<le> \<bar>x\<bar> then nat \<lfloor>\<bar>x\<bar>\<rfloor>
                   else if \<bar>x\<bar> < 2 ^ p / 2 then nat \<lceil>(2 ^ p / 2) / \<bar>x\<bar>\<rceil> else 0)"
    using nb nb2 small pos halve by (cases "\<bar>2 * x\<bar> < 2 ^ p / 2") (simp_all add: y_def)
qed

declare fround.simps [simp del]

text \<open>The result of an operation on \<^verbatim>\<open>float\<close> operands is rounded to binary32, the
  result of an operation with a \<^verbatim>\<open>double\<close> operand, and a decimal literal such as
  \<^verbatim>\<open>0.3\<close>, to binary64.\<close>

definition round_float :: "real \<Rightarrow> real" where
  "round_float x = fround 24 x"

definition round_double :: "real \<Rightarrow> real" where
  "round_double x = fround 53 x"

subsection \<open>Structures and globals\<close>

record AlertLedData =
  blinkRate :: uint8_t
  active :: bool
  forceUpdate :: bool

record MotionData =
  motionDetected :: bool
  timestamp :: uint32_t
  persistenceCounter :: uint8_t
  alertLevel :: uint8_t
  data_alertSystemStopped :: bool
  temperature :: float
  humidity :: float
  message :: string

record globals =
  pirTriggered :: bool
  stopButtonPressed :: bool
  lastPirTrigger :: uint32_t
  motionPersistenceCounter :: uint8_t
  lastCounterUpdate :: uint32_t
  alertSystemStopped :: bool
  currentTemperature :: float
  currentHumidity :: float
  temperatureDataValid :: bool
  ALERT_STOP_THRESHOLD :: uint8_t
  lastBlinkRate :: uint8_t

definition COUNTER_UPDATE_INTERVAL :: uint32_t where
  "COUNTER_UPDATE_INTERVAL = 6000"

definition PIR_DETECTION_WINDOW :: uint32_t where
  "PIR_DETECTION_WINDOW = 5500"

definition MAX_PERSISTENCE_COUNTER :: uint8_t where
  "MAX_PERSISTENCE_COUNTER = 20"

definition MIN_COUNTER_FOR_ALERT :: uint8_t where
  "MIN_COUNTER_FOR_ALERT = 1"

definition BASE_SLOW_BLINK_COUNTER :: uint8_t where
  "BASE_SLOW_BLINK_COUNTER = 5"

definition BASE_MEDIUM_BLINK_COUNTER :: uint8_t where
  "BASE_MEDIUM_BLINK_COUNTER = 8"

definition BASE_FAST_BLINK_COUNTER :: uint8_t where
  "BASE_FAST_BLINK_COUNTER = 12"

definition BASE_CRITICAL_BLINK_COUNTER :: uint8_t where
  "BASE_CRITICAL_BLINK_COUNTER = 16"

text \<open>The three temperature constants are \<^verbatim>\<open>const float\<close> with values that binary32
  represents exactly.\<close>

definition COMFORTABLE_TEMP :: real where
  "COMFORTABLE_TEMP = 22.0"

definition HOT_TEMP_THRESHOLD :: real where
  "HOT_TEMP_THRESHOLD = 30.0"

definition CRITICAL_TEMP_THRESHOLD :: real where
  "CRITICAL_TEMP_THRESHOLD = 35.0"

text \<open>The state at power-up: the initialisers of the globals, and \<^verbatim>\<open>lastCounterUpdate = millis()\<close>
  with \<^verbatim>\<open>lastBlinkRate = 0\<close> at the start of \<^verbatim>\<open>motionDetectionTask\<close>.\<close>

definition initial :: "uint32_t \<Rightarrow> globals" where
  "initial t0 =
     \<lparr> pirTriggered = False, stopButtonPressed = False, lastPirTrigger = 0,
       motionPersistenceCounter = 0, lastCounterUpdate = t0, alertSystemStopped = False,
       currentTemperature = Finite 25.0, currentHumidity = Finite 50.0,
       temperatureDataValid = False, ALERT_STOP_THRESHOLD = 5, lastBlinkRate = 0 \<rparr>"

section \<open>Threshold calculator\<close>

text \<open>The cast \<^verbatim>\<open>(uint8_t)(x)\<close> of a float truncates towards zero.\<close>

definition uint8_of_float :: "real \<Rightarrow> uint8_t" where
  "uint8_of_float x = word_of_int (if 0 \<le> x then \<lfloor>x\<rfloor> else \<lceil>x\<rceil>)"

text \<open>A \<^verbatim>\<open>uint8_t\<close> operand promoted to float: exact.\<close>

definition float_of_uint8 :: "uint8_t \<Rightarrow> real" where
  "float_of_uint8 w = real (unat w)"

text \<open>
  The factor, with the roundings of the source: \<^verbatim>\<open>tempDiff\<close>, \<^verbatim>\<open>maxTempDiff\<close> and their
  quotient are \<^verbatim>\<open>float\<close>; the literals \<^verbatim>\<open>1.0\<close>, \<^verbatim>\<open>0.5\<close>, \<^verbatim>\<open>0.3\<close> are \<^verbatim>\<open>double\<close>, so
  the product with \<^verbatim>\<open>0.5\<close> and the subtraction from \<^verbatim>\<open>1.0\<close> are done in binary64; the
  assignment to the \<^verbatim>\<open>float\<close> variable rounds to binary32. Only a finite temperature
  reaches the interpolation branch: NaN fails every comparison and takes the last
  branch, plus infinity takes the first, minus infinity the last.
\<close>

definition adjustmentFactor :: "float \<Rightarrow> real" where
  "adjustmentFactor temp =
     (if float_ge temp CRITICAL_TEMP_THRESHOLD then round_float (round_double 0.3)
      else if float_ge temp HOT_TEMP_THRESHOLD then round_float (round_double 0.5)
      else if float_gt temp COMFORTABLE_TEMP then
        (case temp of
           Finite t \<Rightarrow>
             (let tempDiff = round_float (t - COMFORTABLE_TEMP);
                  maxTempDiff = round_float (HOT_TEMP_THRESHOLD - COMFORTABLE_TEMP)
              in round_float (round_double (round_double 1.0 -
                   round_double (round_float (tempDiff / maxTempDiff) * round_double 0.5))))
         | _ \<Rightarrow> round_float (round_double 1.0))
      else round_float (round_double 1.0))"

text \<open>
  \<^verbatim>\<open>calculateTemperatureAdjustedThresholds\<close> writes its four reference parameters and the
  global \<^verbatim>\<open>ALERT_STOP_THRESHOLD\<close>: the model returns the four outputs (slow, medium, fast,
  critical) together with the updated globals. Each product is a \<^verbatim>\<open>float\<close>
  multiplication, rounded to binary32 before the cast.
\<close>

definition calculateTemperatureAdjustedThresholds ::
  "float \<Rightarrow> globals \<Rightarrow> (uint8_t \<times> uint8_t \<times> uint8_t \<times> uint8_t) \<times> globals" where
  "calculateTemperatureAdjustedThresholds temp g =
     (let f = adjustmentFactor temp;
          calculatedSlow =
            uint8_of_float (round_float (float_of_uint8 BASE_SLOW_BLINK_COUNTER * f));
          calculatedMedium =
            uint8_of_float (round_float (float_of_uint8 BASE_MEDIUM_BLINK_COUNTER * f));
          calculatedFast =
            uint8_of_float (round_float (float_of_uint8 BASE_FAST_BLINK_COUNTER * f));
          calculatedCritical =
            uint8_of_float (round_float (float_of_uint8 BASE_CRITICAL_BLINK_COUNTER * f));
          calculatedStop = uint8_of_float (round_float (5 * f));
          slowThreshold = (if calculatedSlow > 1 then calculatedSlow else 1);
          mediumThreshold = (if calculatedMedium > 2 then calculatedMedium else 2);
          fastThreshold = (if calculatedFast > 3 then calculatedFast else 3);
          criticalThreshold = (if calculatedCritical > 4 then calculatedCritical else 4)
      in ((slowThreshold, mediumThreshold, fastThreshold, criticalThreshold),
          g\<lparr>ALERT_STOP_THRESHOLD := (if calculatedStop > 2 then calculatedStop else 2)\<rparr>))"

definition calculateBlinkRate :: "uint8_t \<Rightarrow> float \<Rightarrow> globals \<Rightarrow> uint8_t \<times> globals" where
  "calculateBlinkRate counter temp g =
     (case calculateTemperatureAdjustedThresholds temp g of
        ((slowThreshold, mediumThreshold, fastThreshold, criticalThreshold), g') \<Rightarrow>
          ((if counter \<ge> criticalThreshold then 4
            else if counter \<ge> fastThreshold then 3
            else if counter \<ge> mediumThreshold then 2
            else if counter \<ge> slowThreshold then 1
            else 0), g'))"

text \<open>The common shape of the five assignments of the calculator: a base value scaled by
  the factor, rounded, cast to \<^verbatim>\<open>uint8_t\<close>, and raised to its minimum \<open>k\<close>.\<close>

definition scaledThreshold :: "uint8_t \<Rightarrow> real \<Rightarrow> real \<Rightarrow> uint8_t" where
  "scaledThreshold k b f =
     (let c = uint8_of_float (round_float (b * f)) in if c > k then c else k)"

section \<open>Interrupt service routines\<close>

definition motionISR :: "uint32_t \<Rightarrow> globals \<Rightarrow> globals" where
  "motionISR now g = g\<lparr>pirTriggered := True, lastPirTrigger := now\<rparr>"

definition stopButtonISR :: "globals \<Rightarrow> globals" where
  "stopButtonISR g =
     (if motionPersistenceCounter g > ALERT_STOP_THRESHOLD g
      then g\<lparr>stopButtonPressed := True\<rparr> else g)"

section \<open>One iteration of motionDetectionTask\<close>

text \<open>
  The body of the \<^verbatim>\<open>while(1)\<close> loop, in the order of the source: the stop button block,
  the PIR block, the 6-second decay block, then the computation and emission of the alert
  level. \<^verbatim>\<open>currentTime\<close> is the value \<^verbatim>\<open>millis()\<close> returned at the top of the iteration.
  The iteration is taken as atomic: interrupts and the temperature task run between
  iterations. Queue sends are modelled by the values handed to \<^verbatim>\<open>xQueueSend\<close>.
\<close>

definition stopAlert :: AlertLedData where
  "stopAlert = \<lparr> blinkRate = 0, active = False, forceUpdate = True \<rparr>"

definition stopButtonBlock :: "globals \<Rightarrow> globals \<times> AlertLedData option" where
  "stopButtonBlock g =
     (if stopButtonPressed g then
        (let g1 = g\<lparr>stopButtonPressed := False\<rparr> in
         if motionPersistenceCounter g1 > ALERT_STOP_THRESHOLD g1 then
           (g1\<lparr>alertSystemStopped := True, motionPersistenceCounter := 0\<rparr>, Some stopAlert)
         else (g1, None))
      else (g, None))"

definition pirBlock :: "uint32_t \<Rightarrow> globals \<Rightarrow> globals" where
  "pirBlock currentTime g =
     (if pirTriggered g \<and> \<not> alertSystemStopped g then
        (let g1 = g\<lparr>pirTriggered := False\<rparr>;
             g2 = (if motionPersistenceCounter g1 < MAX_PERSISTENCE_COUNTER
                   then g1\<lparr>motionPersistenceCounter := motionPersistenceCounter g1 + 1\<rparr>
                   else g1)
         in g2\<lparr>lastCounterUpdate := currentTime\<rparr>)
      else g)"

definition decayBlock :: "uint32_t \<Rightarrow> globals \<Rightarrow> globals" where
  "decayBlock currentTime g =
     (if currentTime - lastCounterUpdate g \<ge> COUNTER_UPDATE_INTERVAL then
        (let timeSinceLastPir = currentTime - lastPirTrigger g;
             g1 = (if timeSinceLastPir \<ge> PIR_DETECTION_WINDOW then
                     (if motionPersistenceCounter g > 0 then
                        (let g' = g\<lparr>motionPersistenceCounter := motionPersistenceCounter g - 1\<rparr>
                         in if alertSystemStopped g' \<and> motionPersistenceCounter g' = 0
                            then g'\<lparr>alertSystemStopped := False\<rparr> else g')
                      else g)
                   else g)
         in g1\<lparr>lastCounterUpdate := currentTime\<rparr>)
      else g)"

definition statusMessage :: "globals \<Rightarrow> uint8_t \<Rightarrow> string" where
  "statusMessage g currentBlinkRate =
     (if alertSystemStopped g then ''ALERT STOPPED''
      else if motionPersistenceCounter g = 0 then ''No Motion''
      else if currentBlinkRate = 4 then ''CRITICAL HOT''
      else if currentBlinkRate = 3 then ''HIGH ALERT''
      else if currentBlinkRate = 2 then ''MEDIUM ALERT''
      else if currentBlinkRate = 1 then ''LOW ALERT''
      else ''Motion Brief'')"

definition emitBlock :: "uint32_t \<Rightarrow> globals \<Rightarrow> globals \<times> MotionData \<times> AlertLedData" where
  "emitBlock currentTime g =
     (let (currentBlinkRate, g1) =
            (if \<not> alertSystemStopped g
             then calculateBlinkRate (motionPersistenceCounter g) (currentTemperature g) g
             else (0, g));
          motionActive = (\<not> alertSystemStopped g
                           \<and> motionPersistenceCounter g \<ge> MIN_COUNTER_FOR_ALERT);
          data = \<lparr> motionDetected = motionActive, timestamp = currentTime,
                   persistenceCounter = motionPersistenceCounter g1,
                   alertLevel = currentBlinkRate,
                   data_alertSystemStopped = alertSystemStopped g1,
                   temperature = currentTemperature g1, humidity = currentHumidity g1,
                   message = statusMessage g1 currentBlinkRate \<rparr>;
          alertData = \<lparr> blinkRate = currentBlinkRate,
                        active = (motionActive \<and> \<not> alertSystemStopped g1),
                        forceUpdate = (currentBlinkRate \<noteq> lastBlinkRate g1
                                         \<or> alertSystemStopped g1) \<rparr>
      in (g1\<lparr>lastBlinkRate := currentBlinkRate\<rparr>, data, alertData))"

text \<open>The result of one iteration: the new globals, the out-of-cycle stop command sent to
  \<^verbatim>\<open>alertQueue\<close> when the stop was honoured, the \<^verbatim>\<open>MotionData\<close> sent to
  \<^verbatim>\<open>motionQueue\<close>, and the \<^verbatim>\<open>AlertLedData\<close> command of the cycle.\<close>

definition motionDetectionCycle ::
  "uint32_t \<Rightarrow> globals \<Rightarrow> globals \<times> AlertLedData option \<times> MotionData \<times> AlertLedData" where
  "motionDetectionCycle currentTime g =
     (case stopButtonBlock g of (g1, stopCommand) \<Rightarrow>
        (case emitBlock currentTime (decayBlock currentTime (pirBlock currentTime g1)) of
           (g2, data, alertData) \<Rightarrow> (g2, stopCommand, data, alertData)))"

section \<open>One iteration of temperatureTask\<close>

text \<open>The sensor read is an input: \<open>Some (t, h)\<close> is a successful read of temperature
  and humidity, \<open>None\<close> an iteration without a read or with a failed one. Every iteration
  recomputes the thresholds from \<^verbatim>\<open>currentTemperature\<close>.\<close>

definition temperatureCycle :: "(float \<times> float) option \<Rightarrow> globals \<Rightarrow> globals" where
  "temperatureCycle reading g =
     (let g1 = (case reading of
                  Some (t, h) \<Rightarrow> g\<lparr>currentTemperature := t, currentHumidity := h,
                                    temperatureDataValid := True\<rparr>
                | None \<Rightarrow> g)
      in snd (calculateTemperatureAdjustedThresholds (currentTemperature g1) g1))"

section \<open>System steps and reachable states\<close>

datatype input =
    MotionInterrupt uint32_t
  | StopInterrupt
  | TemperatureStep "(float \<times> float) option"
  | MotionStep uint32_t

fun step :: "globals \<Rightarrow> input \<Rightarrow> globals" where
  "step g (MotionInterrupt now) = motionISR now g"
| "step g StopInterrupt = stopButtonISR g"
| "step g (TemperatureStep reading) = temperatureCycle reading g"
| "step g (MotionStep currentTime) = fst (motionDetectionCycle currentTime g)"

inductive reachable :: "globals \<Rightarrow> bool" where
  reachable_initial: "reachable (initial t0)"
| reachable_step: "reachable g \<Longrightarrow> reachable (step g i)"

text \<open>Consecutive iterations of the motion task at the given \<^verbatim>\<open>millis()\<close> values, with
  no interrupt in between.\<close>

fun motionCycles :: "globals \<Rightarrow> uint32_t list \<Rightarrow> globals" where
  "motionCycles g [] = g"
| "motionCycles g (t # ts) = motionCycles (step g (MotionStep t)) ts"

text \<open>The number of iterations among those at times \<open>ts\<close> in which the 6-second decay
  tick fires, \<open>lcu\<close> being \<^verbatim>\<open>lastCounterUpdate\<close> before the first of them: each tick
  restarts the interval.\<close>

fun decayTickCount :: "uint32_t \<Rightarrow> uint32_t list \<Rightarrow> nat" where
  "decayTickCount lcu [] = 0"
| "decayTickCount lcu (t # ts) =
     (if t - lcu \<ge> COUNTER_UPDATE_INTERVAL then Suc (decayTickCount t ts)
      else decayTickCount lcu ts)"

text \<open>Every decay tick among the iterations at times \<open>ts\<close> finds the PIR silent for the
  whole detection window, \<open>lpt\<close> being \<^verbatim>\<open>lastPirTrigger\<close>.\<close>

fun pirSilentAtTicks :: "uint32_t \<Rightarrow> uint32_t \<Rightarrow> uint32_t list \<Rightarrow> bool" where
  "pirSilentAtTicks lcu lpt [] = True"
| "pirSilentAtTicks lcu lpt (t # ts) =
     (if t - lcu \<ge> COUNTER_UPDATE_INTERVAL
      then t - lpt \<ge> PIR_DETECTION_WINDOW \<and> pirSilentAtTicks t lpt ts
      else pirSilentAtTicks lcu lpt ts)"

text \<open>The \<^verbatim>\<open>AlertLedData\<close> command an iteration sends at its end.\<close>

definition cycleAlertData :: "uint32_t \<Rightarrow> globals \<Rightarrow> AlertLedData" where
  "cycleAlertData currentTime g = snd (snd (snd (motionDetectionCycle currentTime g)))"

text \<open>The invariant that links the two state variables of the engine.\<close>

definition stoppedAtZero :: "globals \<Rightarrow> bool" where
  "stoppedAtZero g = (alertSystemStopped g \<longrightarrow> motionPersistenceCounter g = 0)"

section \<open>Sample states\<close>

text \<open>Six motion interrupts after power-up, each drained by the next iteration: the counter
  is 6 and, at the default 25 degrees, the stop threshold is 4.\<close>

definition alertingExample :: globals where
  "alertingExample = foldl step (initial 0)
     [MotionInterrupt 10, MotionStep 20, MotionInterrupt 30, MotionStep 40,
      MotionInterrupt 50, MotionStep 60, MotionInterrupt 70, MotionStep 80,
      MotionInterrupt 90, MotionStep 100, MotionInterrupt 110, MotionStep 120]"

text \<open>The stop button pressed in that state, and the state after the iteration that
  honours it.\<close>

definition pendingStopExample :: globals where
  "pendingStopExample = step alertingExample StopInterrupt"

definition stoppedExample :: globals where
  "stoppedExample = foldl step alertingExample [StopInterrupt, MotionStep 140]"

text \<open>Two states written by hand: a saturated counter with a pending motion interrupt,
  and a quiet system with counter 3.\<close>

definition saturatedExample :: globals where
  "saturatedExample = (initial 0)\<lparr>motionPersistenceCounter := 20, pirTriggered := True\<rparr>"

definition decayExample :: globals where
  "decayExample = (initial 0)\<lparr>motionPersistenceCounter := 3\<rparr>"

section \<open>Properties of the rounding\<close>

lemmas base_defs = BASE_SLOW_BLINK_COUNTER_def BASE_MEDIUM_BLINK_COUNTER_def
  BASE_FAST_BLINK_COUNTER_def BASE_CRITICAL_BLINK_COUNTER_def float_of_uint8_def

lemmas temp_defs = COMFORTABLE_TEMP_def HOT_TEMP_THRESHOLD_def CRITICAL_TEMP_THRESHOLD_def

lemmas float_defs = round_float_def round_double_def fround.simps round_ties_even_def
  float_ge_def float_gt_def

lemma round_ties_even_error: "\<bar>of_int (round_ties_even x) - x\<bar> \<le> 1 / 2"
proof -
  have "of_int \<lfloor>x\<rfloor> \<le> x" "x < of_int \<lfloor>x\<rfloor> + 1" by linarith+
  then show ?thesis by (auto simp: round_ties_even_def Let_def)
qed

lemma fround_error: "\<bar>fround p x - x\<bar> \<le> \<bar>x\<bar> / 2 ^ p"
proof (induction p x rule: fround.induct)
  case (1 p x)
  show ?case
  proof (cases "x = 0")
    case True
    then show ?thesis by (simp add: fround.simps)
  next
    case nz: False
    show ?thesis
    proof (cases "2 ^ p \<le> \<bar>x\<bar>")
      case True
      have "\<bar>fround p (x / 2) - x / 2\<bar> \<le> \<bar>x / 2\<bar> / 2 ^ p"
        using "1.IH"(1) [OF nz True] .
      then have "\<bar>2 * fround p (x / 2) - x\<bar> \<le> \<bar>x\<bar> / 2 ^ p" by (simp add: field_simps)
      moreover have "fround p x = 2 * fround p (x / 2)"
        using nz True by (subst fround.simps) simp
      ultimately show ?thesis by simp
    next
      case nb: False
      show ?thesis
      proof (cases "\<bar>x\<bar> < 2 ^ p / 2")
        case True
        have "\<bar>fround p (2 * x) - 2 * x\<bar> \<le> \<bar>2 * x\<bar> / 2 ^ p"
          using "1.IH"(2) [OF nz nb True] .
        then have "\<bar>fround p (2 * x) / 2 - x\<bar> \<le> \<bar>x\<bar> / 2 ^ p" by (simp add: field_simps)
        moreover have "fround p x = fround p (2 * x) / 2"
          using nz nb True by (subst fround.simps) simp
        ultimately show ?thesis by simp
      next
        case False
        then have "1 / 2 \<le> \<bar>x\<bar> / 2 ^ p" by (simp add: field_simps)
        moreover have "fround p x = of_int (round_ties_even x)"
          using nz nb False by (subst fround.simps) simp
        ultimately show ?thesis using round_ties_even_error [of x] by linarith
      qed
    qed
  qed
qed

lemma fround_bounds:
  assumes "0 \<le> x" "10 \<le> p"
  shows "999 / 1000 * x \<le> fround p x" and "fround p x \<le> 1001 / 1000 * x"
proof -
  have "(2::real) ^ 10 \<le> 2 ^ p" using assms(2) by (intro power_increasing) simp_all
  then have "(1000::real) \<le> 2 ^ p" by simp
  then have "x / 2 ^ p \<le> x / 1000" using assms(1) by (intro divide_left_mono) simp_all
  moreover have "\<bar>fround p x - x\<bar> \<le> x / 2 ^ p" using fround_error [of p x] assms(1) by simp
  ultimately have e: "\<bar>fround p x - x\<bar> \<le> x / 1000" by (rule order_trans [rotated])
  show "999 / 1000 * x \<le> fround p x" using e by linarith
  show "fround p x \<le> 1001 / 1000 * x" using e by linarith
qed

lemma round_float_bounds:
  assumes "0 \<le> x"
  shows "999 / 1000 * x \<le> round_float x" and "round_float x \<le> 1001 / 1000 * x"
  using fround_bounds [OF assms, of 24] by (simp_all add: round_float_def)

lemma round_double_bounds:
  assumes "0 \<le> x"
  shows "999 / 1000 * x \<le> round_double x" and "round_double x \<le> 1001 / 1000 * x"
  using fround_bounds [OF assms, of 53] by (simp_all add: round_double_def)

text \<open>The literals and constants of the calculator, rounded.\<close>

lemma literal_values:
  "round_float (round_double (3 / 10)) = 5033165 / 16777216"
  "round_float (round_double (1 / 2)) = 1 / 2"
  "round_float (round_double 1) = 1"
  "round_double (1 / 2) = 1 / 2"
  "round_double 1 = 1"
  "round_float 8 = 8"
  "round_float 1 = 1"
  "round_float (1 / 2) = 1 / 2"
  by (simp_all add: float_defs)

section \<open>Properties of the threshold calculator\<close>

text \<open>The interpolated factor, whatever the roundings do, stays near the interval from
  one half to one.\<close>

lemma interpolation_range:
  assumes "22 < t" "t < 30"
  shows "49 / 100 \<le> round_float (round_double (1 - round_double (round_float (round_float (t - 22) / 8) * (1 / 2))))"
    and "round_float (round_double (1 - round_double (round_float (round_float (t - 22) / 8) * (1 / 2)))) \<le> 101 / 100"
proof -
  define d where "d = round_float (t - 22)"
  define q where "q = round_float (d / 8)"
  define h where "h = round_double (q * (1 / 2))"
  define s where "s = round_double (1 - h)"
  have t0: "0 \<le> t - 22" using assms by simp
  have d: "0 \<le> d" "d \<le> 1001 / 1000 * 8"
    using round_float_bounds [OF t0] assms by (simp_all add: d_def)
  then have d8: "0 \<le> d / 8" by simp
  have q: "0 \<le> q" "q \<le> 1001 / 1000 * (1001 / 1000)"
    using round_float_bounds [OF d8] d by (simp_all add: q_def)
  then have q2: "0 \<le> q * (1 / 2)" by simp
  have h: "0 \<le> h" "h \<le> 502 / 1000"
    using round_double_bounds [OF q2] q by (simp_all add: h_def)
  then have h1: "0 \<le> 1 - h" by simp
  have s: "497 / 1000 \<le> s" "s \<le> 1001 / 1000"
    using round_double_bounds [OF h1] h by (simp_all add: s_def)
  then have s0: "0 \<le> s" by simp
  have "49 / 100 \<le> round_float s" "round_float s \<le> 101 / 100"
    using round_float_bounds [OF s0] s by simp_all
  then show "49 / 100 \<le> round_float (round_double (1 - round_double (round_float (round_float (t - 22) / 8) * (1 / 2))))"
    and "round_float (round_double (1 - round_double (round_float (round_float (t - 22) / 8) * (1 / 2)))) \<le> 101 / 100"
    by (simp_all add: s_def h_def q_def d_def)
qed

lemma adjustmentFactor_Finite:
  "adjustmentFactor (Finite x) =
     (if 35 \<le> x then 5033165 / 16777216
      else if 30 \<le> x then 1 / 2
      else if 22 < x then
        round_float (round_double
          (1 - round_double (round_float (round_float (x - 22) / 8) * (1 / 2))))
      else 1)"
  by (simp add: adjustmentFactor_def float_ge_def float_gt_def temp_defs Let_def literal_values)

lemma adjustmentFactor_not_finite:
  "adjustmentFactor PlusInfinity = 5033165 / 16777216"
  "adjustmentFactor MinusInfinity = 1"
  "adjustmentFactor NaN = 1"
  by (simp_all add: adjustmentFactor_def float_ge_def float_gt_def temp_defs literal_values)

lemma adjustmentFactor_range: "0 \<le> adjustmentFactor t \<and> adjustmentFactor t \<le> 101 / 100"
proof (cases t)
  case (Finite x)
  show ?thesis
  proof (cases "22 < x \<and> x < 30")
    case True
    then show ?thesis
      using interpolation_range [of x] Finite by (simp add: adjustmentFactor_Finite)
  next
    case False
    then show ?thesis using Finite by (auto simp: adjustmentFactor_Finite)
  qed
qed (simp_all add: adjustmentFactor_not_finite)

lemma unat_uint8_of_float:
  assumes "0 \<le> x" "x < 256"
  shows "unat (uint8_of_float x) = nat \<lfloor>x\<rfloor>"
proof -
  have "\<lfloor>x\<rfloor> < 256" using assms by (simp add: floor_less_iff)
  moreover have "0 \<le> \<lfloor>x\<rfloor>" using assms by simp
  ultimately show ?thesis using assms
    by (simp add: uint8_of_float_def unat_eq_nat_uint uint_word_of_int)
qed

lemma unat_scaled:
  assumes "0 \<le> f" "f \<le> 101 / 100" "0 \<le> k" "k \<le> 16"
  shows "unat (uint8_of_float (round_float (k * f))) = nat \<lfloor>round_float (k * f)\<rfloor>"
proof -
  have a: "0 \<le> k * f" using assms by simp
  have "k * f \<le> 16 * (101 / 100)" using assms by (intro mult_mono) auto
  then have "round_float (k * f) < 256" using round_float_bounds(2) [OF a] by linarith
  moreover have "0 \<le> round_float (k * f)" using round_float_bounds(1) [OF a] a by linarith
  ultimately show ?thesis by (intro unat_uint8_of_float)
qed

lemma unat_scaledThreshold:
  assumes "0 \<le> f" "f \<le> 101 / 100" "0 \<le> b" "b \<le> 16"
  shows "unat (scaledThreshold k b f) = max (unat k) (nat \<lfloor>round_float (b * f)\<rfloor>)"
  unfolding scaledThreshold_def Let_def unat_scaled [OF assms, symmetric]
  by (simp add: word_less_nat_alt max_def)

lemma thresholds_outputs:
  "fst (calculateTemperatureAdjustedThresholds t g) =
     (scaledThreshold 1 5 (adjustmentFactor t), scaledThreshold 2 8 (adjustmentFactor t),
      scaledThreshold 3 12 (adjustmentFactor t), scaledThreshold 4 16 (adjustmentFactor t))"
  by (simp add: calculateTemperatureAdjustedThresholds_def scaledThreshold_def Let_def base_defs)

lemma thresholds_globals:
  "snd (calculateTemperatureAdjustedThresholds t g) =
     g\<lparr>ALERT_STOP_THRESHOLD := scaledThreshold 2 5 (adjustmentFactor t)\<rparr>"
  by (simp add: calculateTemperatureAdjustedThresholds_def scaledThreshold_def Let_def base_defs)

text \<open>Two values whose difference is at least 1 have different integer parts.\<close>

lemma floor_gap:
  fixes a b :: real
  assumes "1 \<le> b - a"
  shows "\<lfloor>a\<rfloor> < \<lfloor>b\<rfloor>"
proof -
  have "of_int \<lfloor>a\<rfloor> + 1 \<le> b" using assms of_int_floor_le [of a] by linarith
  then have "\<lfloor>a\<rfloor> + 1 \<le> \<lfloor>b\<rfloor>" by (simp add: le_floor_iff)
  then show ?thesis by simp
qed


lemma slow_below_medium:
  fixes f :: real
  assumes "0 \<le> f"
  shows "max 1 (nat \<lfloor>round_float (5 * f)\<rfloor>) < max 2 (nat \<lfloor>round_float (8 * f)\<rfloor>)"
proof (cases "\<lfloor>round_float (5 * f)\<rfloor> \<le> 1")
  case True
  then show ?thesis by linarith
next
  case False
  have a: "round_float (5 * f) \<le> 1001 / 1000 * (5 * f)"
    and b: "999 / 1000 * (8 * f) \<le> round_float (8 * f)"
    using round_float_bounds [of "5 * f"] round_float_bounds [of "8 * f"] assms by simp_all
  from False have "2 \<le> \<lfloor>round_float (5 * f)\<rfloor>" by simp
  then have "2 \<le> round_float (5 * f)" by (simp add: le_floor_iff)
  then have "1 \<le> round_float (8 * f) - round_float (5 * f)" using a b by linarith
  then have "\<lfloor>round_float (5 * f)\<rfloor> < \<lfloor>round_float (8 * f)\<rfloor>" by (rule floor_gap)
  then show ?thesis using False by linarith
qed

lemma medium_below_fast:
  fixes f :: real
  assumes "0 \<le> f"
  shows "max 2 (nat \<lfloor>round_float (8 * f)\<rfloor>) < max 3 (nat \<lfloor>round_float (12 * f)\<rfloor>)"
proof (cases "\<lfloor>round_float (8 * f)\<rfloor> \<le> 2")
  case True
  then show ?thesis by linarith
next
  case False
  have a: "round_float (8 * f) \<le> 1001 / 1000 * (8 * f)"
    and b: "999 / 1000 * (12 * f) \<le> round_float (12 * f)"
    using round_float_bounds [of "8 * f"] round_float_bounds [of "12 * f"] assms by simp_all
  from False have "3 \<le> \<lfloor>round_float (8 * f)\<rfloor>" by simp
  then have "3 \<le> round_float (8 * f)" by (simp add: le_floor_iff)
  then have "1 \<le> round_float (12 * f) - round_float (8 * f)" using a b by linarith
  then have "\<lfloor>round_float (8 * f)\<rfloor> < \<lfloor>round_float (12 * f)\<rfloor>" by (rule floor_gap)
  then show ?thesis using False by linarith
qed

lemma fast_below_critical:
  fixes f :: real
  assumes "0 \<le> f"
  shows "max 3 (nat \<lfloor>round_float (12 * f)\<rfloor>) < max 4 (nat \<lfloor>round_float (16 * f)\<rfloor>)"
proof (cases "\<lfloor>round_float (12 * f)\<rfloor> \<le> 3")
  case True
  then show ?thesis by linarith
next
  case False
  have a: "round_float (12 * f) \<le> 1001 / 1000 * (12 * f)"
    and b: "999 / 1000 * (16 * f) \<le> round_float (16 * f)"
    using round_float_bounds [of "12 * f"] round_float_bounds [of "16 * f"] assms by simp_all
  from False have "4 \<le> \<lfloor>round_float (12 * f)\<rfloor>" by simp
  then have "4 \<le> round_float (12 * f)" by (simp add: le_floor_iff)
  then have "1 \<le> round_float (16 * f) - round_float (12 * f)" using a b by linarith
  then have "\<lfloor>round_float (12 * f)\<rfloor> < \<lfloor>round_float (16 * f)\<rfloor>" by (rule floor_gap)
  then show ?thesis using False by linarith
qed

text \<open>
  C7. At 22.0, 30.0 and 35.0 degrees the calculator returns (5, 8, 12, 16), (2, 4, 6, 8)
  and (1, 2, 3, 4), and leaves the stop threshold at 5, 2 and 2.
\<close>

theorem thresholds_at_reference_temperatures:
  "fst (calculateTemperatureAdjustedThresholds (Finite 22.0) g) = (5, 8, 12, 16)
   \<and> ALERT_STOP_THRESHOLD (snd (calculateTemperatureAdjustedThresholds (Finite 22.0) g)) = 5
   \<and> fst (calculateTemperatureAdjustedThresholds (Finite 30.0) g) = (2, 4, 6, 8)
   \<and> ALERT_STOP_THRESHOLD (snd (calculateTemperatureAdjustedThresholds (Finite 30.0) g)) = 2
   \<and> fst (calculateTemperatureAdjustedThresholds (Finite 35.0) g) = (1, 2, 3, 4)
   \<and> ALERT_STOP_THRESHOLD (snd (calculateTemperatureAdjustedThresholds (Finite 35.0) g)) = 2"
  by (simp add: calculateTemperatureAdjustedThresholds_def adjustmentFactor_Finite
      base_defs uint8_of_float_def float_defs)

text \<open>
  The roundings matter: at the binary32 temperature 12233387 / 2 ^ 19 (about 23.3333340)
  the factor is 7689557 / 2 ^ 23, its product with 12 lies halfway between two binary32
  values, just below 11, and rounds to 11: the fast threshold is 11, where arithmetic
  without rounding would give 10.
\<close>

lemma thresholds_at_rounding_tie:
  "adjustmentFactor (Finite (12233387 / 2 ^ 19)) = 7689557 / 2 ^ 23
   \<and> round_float (12 * (7689557 / 2 ^ 23)) = 11
   \<and> fst (calculateTemperatureAdjustedThresholds (Finite (12233387 / 2 ^ 19)) g) =
       (4, 7, 11, 14)"
  by (simp add: calculateTemperatureAdjustedThresholds_def adjustmentFactor_Finite
      base_defs uint8_of_float_def float_defs)

text \<open>
  C3. For every temperature (finite, infinite or NaN) the outputs are strictly increasing,
  slow < medium < fast < critical, each at least its floor 1, 2, 3, 4, and the stop
  threshold the call leaves in the globals is at least 2.
\<close>

theorem thresholds_strictly_increasing:
  "case calculateTemperatureAdjustedThresholds t g of
     ((slow, medium, fast, critical), g') \<Rightarrow>
        slow < medium \<and> medium < fast \<and> fast < critical
        \<and> 1 \<le> slow \<and> 2 \<le> medium \<and> 3 \<le> fast \<and> 4 \<le> critical
        \<and> 2 \<le> ALERT_STOP_THRESHOLD g'"
proof -
  let ?f = "adjustmentFactor t"
  have f: "0 \<le> ?f" "?f \<le> 101 / 100" using adjustmentFactor_range [of t] by simp_all
  have s: "unat (scaledThreshold 1 5 ?f) = max 1 (nat \<lfloor>round_float (5 * ?f)\<rfloor>)"
    using unat_scaledThreshold [OF f, of 5 1] by simp
  have m: "unat (scaledThreshold 2 8 ?f) = max 2 (nat \<lfloor>round_float (8 * ?f)\<rfloor>)"
    using unat_scaledThreshold [OF f, of 8 2] by simp
  have a: "unat (scaledThreshold 3 12 ?f) = max 3 (nat \<lfloor>round_float (12 * ?f)\<rfloor>)"
    using unat_scaledThreshold [OF f, of 12 3] by simp
  have c: "unat (scaledThreshold 4 16 ?f) = max 4 (nat \<lfloor>round_float (16 * ?f)\<rfloor>)"
    using unat_scaledThreshold [OF f, of 16 4] by simp
  have p: "unat (scaledThreshold 2 5 ?f) = max 2 (nat \<lfloor>round_float (5 * ?f)\<rfloor>)"
    using unat_scaledThreshold [OF f, of 5 2] by simp
  have "scaledThreshold 1 5 ?f < scaledThreshold 2 8 ?f"
    unfolding word_less_nat_alt s m using f(1) by (rule slow_below_medium)
  moreover have "scaledThreshold 2 8 ?f < scaledThreshold 3 12 ?f"
    unfolding word_less_nat_alt m a using f(1) by (rule medium_below_fast)
  moreover have "scaledThreshold 3 12 ?f < scaledThreshold 4 16 ?f"
    unfolding word_less_nat_alt a c using f(1) by (rule fast_below_critical)
  moreover have "1 \<le> scaledThreshold 1 5 ?f" unfolding word_le_nat_alt s by simp
  moreover have "2 \<le> scaledThreshold 2 8 ?f" unfolding word_le_nat_alt m by simp
  moreover have "3 \<le> scaledThreshold 3 12 ?f" unfolding word_le_nat_alt a by simp
  moreover have "4 \<le> scaledThreshold 4 16 ?f" unfolding word_le_nat_alt c by simp
  moreover have "2 \<le> scaledThreshold 2 5 ?f" unfolding word_le_nat_alt p by simp
  ultimately show ?thesis
    using thresholds_outputs [of t g] thresholds_globals [of t g]
    by (cases "calculateTemperatureAdjustedThresholds t g") simp
qed

text \<open>
  C10. For a fixed temperature the blink rate is monotone in the counter: a larger counter
  never yields a lower alert level.
\<close>

theorem blinkRate_monotone:
  "c1 \<le> c2 \<Longrightarrow> fst (calculateBlinkRate c1 t g) \<le> fst (calculateBlinkRate c2 t g)"
  by (cases "calculateTemperatureAdjustedThresholds t g")
     (auto simp: calculateBlinkRate_def)

text \<open>
  C5, as stated, fails: the first call at 35 degrees after power-up lowers the global stop
  threshold from 5 to 2, so the globals after the call differ from those before.
\<close>

theorem calculator_changes_stop_threshold:
  "ALERT_STOP_THRESHOLD (initial 0) = 5
   \<and> ALERT_STOP_THRESHOLD (snd (calculateTemperatureAdjustedThresholds (Finite 35.0) (initial 0))) = 2
   \<and> snd (calculateTemperatureAdjustedThresholds (Finite 35.0) (initial 0)) \<noteq> initial 0"
  by (simp add: calculateTemperatureAdjustedThresholds_def adjustmentFactor_Finite
      base_defs uint8_of_float_def float_defs initial_def)

text \<open>
  C5, amended. A call changes no global other than \<^verbatim>\<open>ALERT_STOP_THRESHOLD\<close> (putting the old
  threshold back gives the globals before the call); it sets that threshold to 5 times the
  factor, rounded, truncated and raised to 2; and its four outputs depend on the temperature only,
  not on the globals.
\<close>

theorem calculator_frame:
  "(snd (calculateTemperatureAdjustedThresholds t g))
      \<lparr>ALERT_STOP_THRESHOLD := ALERT_STOP_THRESHOLD g\<rparr> = g
   \<and> ALERT_STOP_THRESHOLD (snd (calculateTemperatureAdjustedThresholds t g)) =
       scaledThreshold 2 5 (adjustmentFactor t)
   \<and> fst (calculateTemperatureAdjustedThresholds t g) =
       fst (calculateTemperatureAdjustedThresholds t g')"
  by (simp add: thresholds_outputs thresholds_globals)

section \<open>Evaluation of the sample states\<close>

lemmas eval_defs = motionDetectionCycle_def stopButtonBlock_def pirBlock_def decayBlock_def
  emitBlock_def calculateBlinkRate_def calculateTemperatureAdjustedThresholds_def
  adjustmentFactor_Finite float_defs uint8_of_float_def statusMessage_def stopAlert_def
  motionISR_def
  stopButtonISR_def temperatureCycle_def initial_def Let_def
  COUNTER_UPDATE_INTERVAL_def PIR_DETECTION_WINDOW_def MAX_PERSISTENCE_COUNTER_def
  MIN_COUNTER_FOR_ALERT_def base_defs temp_defs

lemma alertingExample_value:
  "alertingExample =
     \<lparr> pirTriggered = False, stopButtonPressed = False, lastPirTrigger = 110,
       motionPersistenceCounter = 6, lastCounterUpdate = 120, alertSystemStopped = False,
       currentTemperature = Finite 25.0, currentHumidity = Finite 50.0,
       temperatureDataValid = False,
       ALERT_STOP_THRESHOLD = 4, lastBlinkRate = 2 \<rparr>"
  by (simp add: alertingExample_def eval_defs)

lemma pendingStopExample_value:
  "pendingStopExample = alertingExample\<lparr>stopButtonPressed := True\<rparr>"
  by (simp add: pendingStopExample_def alertingExample_value stopButtonISR_def)

lemma stoppedExample_value:
  "stoppedExample =
     \<lparr> pirTriggered = False, stopButtonPressed = False, lastPirTrigger = 110,
       motionPersistenceCounter = 0, lastCounterUpdate = 120, alertSystemStopped = True,
       currentTemperature = Finite 25.0, currentHumidity = Finite 50.0,
       temperatureDataValid = False,
       ALERT_STOP_THRESHOLD = 4, lastBlinkRate = 0 \<rparr>"
  by (simp add: stoppedExample_def alertingExample_value eval_defs)

lemma reachable_foldl: "reachable g \<Longrightarrow> reachable (foldl step g is)"
  by (induction "is" arbitrary: g) (simp_all add: reachable_step)

lemma reachable_alertingExample: "reachable alertingExample"
  unfolding alertingExample_def by (intro reachable_foldl reachable_initial)

lemma reachable_stoppedExample: "reachable stoppedExample"
  unfolding stoppedExample_def by (intro reachable_foldl reachable_alertingExample)

text \<open>Witness of C10 at 30 degrees, where the thresholds are (2, 4, 6, 8).\<close>

theorem blinkRate_monotone_witness:
  "(3::uint8_t) \<le> 9 \<and> fst (calculateBlinkRate 3 (Finite 30.0) (initial 0)) = 1
   \<and> fst (calculateBlinkRate 9 (Finite 30.0) (initial 0)) = 4
   \<and> fst (calculateBlinkRate 3 (Finite 30.0) (initial 0)) \<le> fst (calculateBlinkRate 9 (Finite 30.0) (initial 0))"
proof -
  have h: "(3::uint8_t) \<le> 9" by simp
  have "fst (calculateBlinkRate 3 (Finite 30.0) (initial 0)) = 1"
    "fst (calculateBlinkRate 9 (Finite 30.0) (initial 0)) = 4"
    by (simp_all add: eval_defs)
  then show ?thesis using blinkRate_monotone [OF h, of "Finite 30.0" "initial 0"] by simp
qed

section \<open>What each block of the iteration changes\<close>

lemma calculateBlinkRate_globals:
  "snd (calculateBlinkRate c t g) =
     g\<lparr>ALERT_STOP_THRESHOLD := scaledThreshold 2 5 (adjustmentFactor t)\<rparr>"
  using thresholds_globals [of t g]
  by (auto simp: calculateBlinkRate_def split: prod.splits)

lemma emitBlock_globals:
  "fst (emitBlock now g) =
     (if alertSystemStopped g then g\<lparr>lastBlinkRate := 0\<rparr>
      else g\<lparr>ALERT_STOP_THRESHOLD :=
                scaledThreshold 2 5 (adjustmentFactor (currentTemperature g)),
             lastBlinkRate :=
                fst (calculateBlinkRate (motionPersistenceCounter g) (currentTemperature g) g)\<rparr>)"
  using calculateBlinkRate_globals [of "motionPersistenceCounter g" "currentTemperature g" g]
  by (cases "calculateBlinkRate (motionPersistenceCounter g) (currentTemperature g) g")
     (simp add: emitBlock_def Let_def)

lemma emitBlock_counter [simp]:
  "motionPersistenceCounter (fst (emitBlock now g)) = motionPersistenceCounter g"
  by (simp add: emitBlock_globals)

lemma emitBlock_stopped [simp]:
  "alertSystemStopped (fst (emitBlock now g)) = alertSystemStopped g"
  by (simp add: emitBlock_globals)

lemma emitBlock_alertData:
  "snd (snd (emitBlock now g)) =
     \<lparr> blinkRate = lastBlinkRate (fst (emitBlock now g)),
       active = (\<not> alertSystemStopped g \<and> motionPersistenceCounter g \<ge> MIN_COUNTER_FOR_ALERT),
       forceUpdate = (lastBlinkRate (fst (emitBlock now g)) \<noteq> lastBlinkRate g
                       \<or> alertSystemStopped g) \<rparr>"
  using calculateBlinkRate_globals [of "motionPersistenceCounter g" "currentTemperature g" g]
  by (cases "calculateBlinkRate (motionPersistenceCounter g) (currentTemperature g) g")
     (auto simp: emitBlock_def Let_def)

lemma cycle_globals:
  "fst (motionDetectionCycle now g) =
     fst (emitBlock now (decayBlock now (pirBlock now (fst (stopButtonBlock g)))))"
  by (simp add: motionDetectionCycle_def split: prod.splits)

lemma cycle_counter:
  "motionPersistenceCounter (fst (motionDetectionCycle now g)) =
     motionPersistenceCounter (decayBlock now (pirBlock now (fst (stopButtonBlock g))))"
  by (simp add: cycle_globals)

lemma cycle_stopped:
  "alertSystemStopped (fst (motionDetectionCycle now g)) =
     alertSystemStopped (decayBlock now (pirBlock now (fst (stopButtonBlock g))))"
  by (simp add: cycle_globals)

lemma cycleAlertData_emit:
  "cycleAlertData now g =
     snd (snd (emitBlock now (decayBlock now (pirBlock now (fst (stopButtonBlock g))))))"
  by (simp add: cycleAlertData_def motionDetectionCycle_def split: prod.splits)

lemma lastBlinkRate_blocks:
  "lastBlinkRate (decayBlock now (pirBlock now (fst (stopButtonBlock g)))) = lastBlinkRate g"
  by (simp add: decayBlock_def pirBlock_def stopButtonBlock_def Let_def)

lemma stopButtonBlock_keeps_stopped:
  "alertSystemStopped g \<Longrightarrow> alertSystemStopped (fst (stopButtonBlock g))"
  by (simp add: stopButtonBlock_def Let_def)

lemma pirBlock_stopped: "alertSystemStopped g \<Longrightarrow> pirBlock now g = g"
  by (simp add: pirBlock_def)

section \<open>Invariants of the engine\<close>

lemma counter_inc_bounded:
  fixes c :: uint8_t
  assumes "c < 20"
  shows "c + 1 \<le> 20"
  using assms by (simp add: inc_le)

lemma counter_dec_bounded:
  fixes c :: uint8_t
  assumes "0 < c" "c \<le> 20"
  shows "c - 1 \<le> 20"
proof -
  have "c \<noteq> 0" using assms(1) by auto
  then have "unat (c - 1) = unat c - 1" by (rule unat_minus_one)
  then show ?thesis using assms(2) by (simp add: word_le_nat_alt)
qed

lemma unat_decrement:
  fixes c :: uint8_t
  shows "unat (if 0 < c then c - 1 else c) = unat c - 1"
proof (cases "c = 0")
  case True
  then show ?thesis by simp
next
  case False
  then have "unat (c - 1) = unat c - 1" by (rule unat_minus_one)
  then show ?thesis using False by (simp add: word_neq_0_conv)
qed

lemma stopButtonBlock_bounded:
  "motionPersistenceCounter g \<le> 20 \<Longrightarrow>
   motionPersistenceCounter (fst (stopButtonBlock g)) \<le> 20"
  by (simp add: stopButtonBlock_def Let_def)

lemma pirBlock_bounded:
  "motionPersistenceCounter g \<le> 20 \<Longrightarrow> motionPersistenceCounter (pirBlock now g) \<le> 20"
  by (simp add: pirBlock_def Let_def MAX_PERSISTENCE_COUNTER_def counter_inc_bounded)

lemma decayBlock_bounded:
  "motionPersistenceCounter g \<le> 20 \<Longrightarrow> motionPersistenceCounter (decayBlock now g) \<le> 20"
  by (simp add: decayBlock_def Let_def counter_dec_bounded)

lemma step_bounded:
  assumes "motionPersistenceCounter g \<le> 20"
  shows "motionPersistenceCounter (step g i) \<le> 20"
proof (cases i)
  case (MotionInterrupt now)
  then show ?thesis using assms by (simp add: motionISR_def)
next
  case StopInterrupt
  then show ?thesis using assms by (simp add: stopButtonISR_def)
next
  case (TemperatureStep reading)
  then show ?thesis using assms
    by (simp add: temperatureCycle_def thresholds_globals Let_def split: option.splits)
next
  case (MotionStep now)
  then show ?thesis using assms
    by (simp add: cycle_counter stopButtonBlock_bounded pirBlock_bounded decayBlock_bounded)
qed

lemma reachable_bounded: "reachable g \<Longrightarrow> motionPersistenceCounter g \<le> 20"
proof (induction rule: reachable.induct)
  case (reachable_initial t0)
  show ?case by (simp add: initial_def)
next
  case (reachable_step g i)
  then show ?case by (simp add: step_bounded)
qed

lemma stopButtonBlock_stoppedAtZero:
  "stoppedAtZero g \<Longrightarrow> stoppedAtZero (fst (stopButtonBlock g))"
  by (simp add: stoppedAtZero_def stopButtonBlock_def Let_def)

lemma pirBlock_stoppedAtZero:
  "stoppedAtZero g \<Longrightarrow> stoppedAtZero (pirBlock now g)"
  by (simp add: stoppedAtZero_def pirBlock_def Let_def)

lemma decayBlock_stoppedAtZero:
  "stoppedAtZero g \<Longrightarrow> stoppedAtZero (decayBlock now g)"
  by (auto simp: stoppedAtZero_def decayBlock_def Let_def)

lemma step_stoppedAtZero:
  assumes "stoppedAtZero g"
  shows "stoppedAtZero (step g i)"
proof (cases i)
  case (MotionInterrupt now)
  then show ?thesis using assms by (simp add: stoppedAtZero_def motionISR_def)
next
  case StopInterrupt
  then show ?thesis using assms by (simp add: stoppedAtZero_def stopButtonISR_def)
next
  case (TemperatureStep reading)
  then show ?thesis using assms
    by (simp add: stoppedAtZero_def temperatureCycle_def thresholds_globals Let_def
        split: option.splits)
next
  case (MotionStep now)
  have "stoppedAtZero (decayBlock now (pirBlock now (fst (stopButtonBlock g))))"
    using assms
    by (intro decayBlock_stoppedAtZero pirBlock_stoppedAtZero stopButtonBlock_stoppedAtZero)
  then show ?thesis using MotionStep
    by (simp add: stoppedAtZero_def cycle_counter cycle_stopped)
qed

lemma reachable_stoppedAtZero: "reachable g \<Longrightarrow> stoppedAtZero g"
proof (induction rule: reachable.induct)
  case (reachable_initial t0)
  show ?case by (simp add: initial_def stoppedAtZero_def)
next
  case (reachable_step g i)
  then show ?case by (simp add: step_stoppedAtZero)
qed

text \<open>
  A consequence for the runs of the system: once stopped, a system started at power-up
  stays stopped. The stop zeroes the counter, and the decay block re-enables the alerts
  only inside its branch for a positive counter.
\<close>

lemma reachable_stopped_stays:
  assumes "reachable g" "alertSystemStopped g"
  shows "alertSystemStopped (step g i)"
proof (cases i)
  case (MotionInterrupt now)
  then show ?thesis using assms(2) by (simp add: motionISR_def)
next
  case StopInterrupt
  then show ?thesis using assms(2) by (simp add: stopButtonISR_def)
next
  case (TemperatureStep reading)
  then show ?thesis using assms(2)
    by (simp add: temperatureCycle_def thresholds_globals Let_def split: option.splits)
next
  case (MotionStep now)
  let ?g1 = "fst (stopButtonBlock g)"
  have z: "stoppedAtZero ?g1"
    using assms(1) by (intro stopButtonBlock_stoppedAtZero reachable_stoppedAtZero)
  have s1: "alertSystemStopped ?g1" using assms(2) by (rule stopButtonBlock_keeps_stopped)
  have p: "pirBlock now ?g1 = ?g1" using s1 by (rule pirBlock_stopped)
  have "motionPersistenceCounter ?g1 = 0" using z s1 by (simp add: stoppedAtZero_def)
  then have "alertSystemStopped (decayBlock now ?g1)" using s1
    by (simp add: decayBlock_def Let_def)
  then show ?thesis using MotionStep by (simp add: cycle_stopped p)
qed

lemma reachable_stopped_forever:
  assumes "reachable g" "alertSystemStopped g"
  shows "alertSystemStopped (foldl step g is)"
  using assms
proof (induction "is" arbitrary: g)
  case Nil
  then show ?case by simp
next
  case (Cons i "is")
  have "reachable (step g i)" using Cons.prems(1) by (rule reachable_step)
  moreover have "alertSystemStopped (step g i)"
    using Cons.prems by (rule reachable_stopped_stays)
  ultimately show ?case using Cons.IH by simp
qed

section \<open>The stop interlock\<close>

text \<open>
  C1. The stop control is gated by the counter against the current stop threshold.
  When the counter is at most the threshold, the interrupt routine leaves the globals as
  they are, the stop block of the iteration only clears the pending flag, and an iteration
  with no pending motion and no decay due leaves counter and mode unchanged.
  When the counter exceeds the threshold, the interrupt routine raises the flag, and the
  iteration that drains the flag sets the mode to stopped and the counter to 0 in that same
  iteration, with the stop command sent first.
\<close>

theorem stop_event_gating:
  "(motionPersistenceCounter g \<le> ALERT_STOP_THRESHOLD g \<longrightarrow>
       step g StopInterrupt = g
     \<and> stopButtonBlock g = (g\<lparr>stopButtonPressed := False\<rparr>, None)
     \<and> (\<not> pirTriggered g \<and> currentTime - lastCounterUpdate g < COUNTER_UPDATE_INTERVAL \<longrightarrow>
          motionPersistenceCounter (step g (MotionStep currentTime)) = motionPersistenceCounter g
        \<and> alertSystemStopped (step g (MotionStep currentTime)) = alertSystemStopped g))
   \<and> (motionPersistenceCounter g > ALERT_STOP_THRESHOLD g \<longrightarrow>
       stopButtonPressed (step g StopInterrupt)
     \<and> (stopButtonPressed g \<longrightarrow>
          stopButtonBlock g =
            (g\<lparr>stopButtonPressed := False, alertSystemStopped := True,
                motionPersistenceCounter := 0\<rparr>, Some stopAlert)
        \<and> alertSystemStopped (step g (MotionStep currentTime))
        \<and> motionPersistenceCounter (step g (MotionStep currentTime)) = 0))"
proof (intro conjI impI)
  assume le: "motionPersistenceCounter g \<le> ALERT_STOP_THRESHOLD g"
  then have nl: "\<not> ALERT_STOP_THRESHOLD g < motionPersistenceCounter g" by simp
  show "step g StopInterrupt = g" using nl by (simp add: stopButtonISR_def)
  show b: "stopButtonBlock g = (g\<lparr>stopButtonPressed := False\<rparr>, None)"
    using nl by (simp add: stopButtonBlock_def Let_def)
  assume q: "\<not> pirTriggered g \<and> currentTime - lastCounterUpdate g < COUNTER_UPDATE_INTERVAL"
  then have nd: "\<not> COUNTER_UPDATE_INTERVAL \<le> currentTime - lastCounterUpdate g"
    by (auto simp: not_le)
  show "motionPersistenceCounter (step g (MotionStep currentTime)) = motionPersistenceCounter g"
    using q nd by (simp add: cycle_counter b pirBlock_def decayBlock_def)
  show "alertSystemStopped (step g (MotionStep currentTime)) = alertSystemStopped g"
    using q nd by (simp add: cycle_stopped b pirBlock_def decayBlock_def)
next
  assume gt: "ALERT_STOP_THRESHOLD g < motionPersistenceCounter g"
  show "stopButtonPressed (step g StopInterrupt)" using gt by (simp add: stopButtonISR_def)
  assume p: "stopButtonPressed g"
  show b: "stopButtonBlock g =
            (g\<lparr>stopButtonPressed := False, alertSystemStopped := True,
                motionPersistenceCounter := 0\<rparr>, Some stopAlert)"
    using gt p by (simp add: stopButtonBlock_def Let_def)
  show "alertSystemStopped (step g (MotionStep currentTime))"
    by (simp add: cycle_stopped b pirBlock_def decayBlock_def Let_def)
  show "motionPersistenceCounter (step g (MotionStep currentTime)) = 0"
    by (simp add: cycle_counter b pirBlock_def decayBlock_def Let_def)
qed

text \<open>Witness of C1: at power-up (counter 0, threshold 5) the button is inert; with
  counter 6 over threshold 4 the press is honoured.\<close>

theorem stop_event_gating_witness:
  "motionPersistenceCounter (initial 0) \<le> ALERT_STOP_THRESHOLD (initial 0)
   \<and> step (initial 0) StopInterrupt = initial 0
   \<and> motionPersistenceCounter (step (initial 0) (MotionStep 100)) = 0
   \<and> \<not> alertSystemStopped (step (initial 0) (MotionStep 100))
   \<and> motionPersistenceCounter pendingStopExample > ALERT_STOP_THRESHOLD pendingStopExample
   \<and> stopButtonPressed pendingStopExample
   \<and> alertSystemStopped (step pendingStopExample (MotionStep 140))
   \<and> motionPersistenceCounter (step pendingStopExample (MotionStep 140)) = 0"
proof -
  have a: "motionPersistenceCounter (initial 0) \<le> ALERT_STOP_THRESHOLD (initial 0)"
    by (simp add: initial_def)
  have b: "\<not> pirTriggered (initial 0)
     \<and> 100 - lastCounterUpdate (initial 0) < COUNTER_UPDATE_INTERVAL"
    by (simp add: initial_def COUNTER_UPDATE_INTERVAL_def)
  have c: "motionPersistenceCounter pendingStopExample > ALERT_STOP_THRESHOLD pendingStopExample"
    by (simp add: pendingStopExample_value alertingExample_value)
  have d: "stopButtonPressed pendingStopExample"
    by (simp add: pendingStopExample_value)
  have i: "motionPersistenceCounter (initial 0) = 0" "\<not> alertSystemStopped (initial 0)"
    by (simp_all add: initial_def)
  show ?thesis
    using stop_event_gating [of "initial 0" 100] stop_event_gating [of pendingStopExample 140]
      a b c d i
    by (simp del: step.simps)
qed

text \<open>
  C2. The re-arm is missed. After the stop button has stopped the system (six motion
  events, then the button: counter 0, mode stopped), the iteration at 6200 ms is a decay
  tick with the PIR silent, 6080 ms after the last counter update and 6090 ms after the
  last PIR trigger. The counter is at 0 while the mode is stopped, yet the mode stays
  stopped, at this tick and at the following ones: the stop has zeroed the counter, and
  the block that re-enables the alerts sits inside the branch for a positive counter.
\<close>

theorem rearm_missed_after_stop:
  "alertSystemStopped stoppedExample \<and> motionPersistenceCounter stoppedExample = 0
   \<and> 6200 - lastCounterUpdate stoppedExample \<ge> COUNTER_UPDATE_INTERVAL
   \<and> 6200 - lastPirTrigger stoppedExample \<ge> PIR_DETECTION_WINDOW
   \<and> motionPersistenceCounter (step stoppedExample (MotionStep 6200)) = 0
   \<and> alertSystemStopped (step stoppedExample (MotionStep 6200))
   \<and> alertSystemStopped (motionCycles stoppedExample [6200, 12200, 18200])"
  by (simp add: stoppedExample_value eval_defs)

section \<open>The persistence counter\<close>

text \<open>
  C4. In every state reachable from power-up by motion and stop interrupts, temperature
  steps and iterations of the motion task, the counter lies between 0 and
  \<^verbatim>\<open>MAX_PERSISTENCE_COUNTER\<close> = 20. An iteration that drains a motion event at counter 20
  leaves the counter at 20, and an iteration without pending motion at counter 0 (whether
  or not its decay tick fires) leaves it at 0.
\<close>

theorem counter_within_bounds:
  "(reachable g \<longrightarrow>
       0 \<le> motionPersistenceCounter g \<and> motionPersistenceCounter g \<le> MAX_PERSISTENCE_COUNTER)
   \<and> (motionPersistenceCounter g = MAX_PERSISTENCE_COUNTER \<and> pirTriggered g
        \<and> \<not> alertSystemStopped g \<and> \<not> stopButtonPressed g \<longrightarrow>
        motionPersistenceCounter (step g (MotionStep currentTime)) = MAX_PERSISTENCE_COUNTER)
   \<and> (motionPersistenceCounter g = 0 \<and> \<not> pirTriggered g \<longrightarrow>
        motionPersistenceCounter (step g (MotionStep currentTime)) = 0)"
proof (intro conjI impI)
  assume "reachable g"
  then show "motionPersistenceCounter g \<le> MAX_PERSISTENCE_COUNTER"
    by (simp add: reachable_bounded MAX_PERSISTENCE_COUNTER_def)
next
  show "0 \<le> motionPersistenceCounter g" by simp
next
  assume a: "motionPersistenceCounter g = MAX_PERSISTENCE_COUNTER \<and> pirTriggered g
        \<and> \<not> alertSystemStopped g \<and> \<not> stopButtonPressed g"
  then have b: "stopButtonBlock g = (g, None)" by (simp add: stopButtonBlock_def)
  show "motionPersistenceCounter (step g (MotionStep currentTime)) = MAX_PERSISTENCE_COUNTER"
    using a
    by (simp add: cycle_counter b pirBlock_def decayBlock_def Let_def
        COUNTER_UPDATE_INTERVAL_def)
next
  assume a: "motionPersistenceCounter g = 0 \<and> \<not> pirTriggered g"
  then have b: "motionPersistenceCounter (fst (stopButtonBlock g)) = 0
     \<and> \<not> pirTriggered (fst (stopButtonBlock g))"
    by (simp add: stopButtonBlock_def Let_def)
  then have "pirBlock currentTime (fst (stopButtonBlock g)) = fst (stopButtonBlock g)"
    by (simp add: pirBlock_def)
  then show "motionPersistenceCounter (step g (MotionStep currentTime)) = 0"
    using b by (simp add: cycle_counter decayBlock_def Let_def)
qed

text \<open>Witness of C4: a reachable state, a saturated counter with a pending motion event,
  and a decay tick at counter 0.\<close>

theorem counter_within_bounds_witness:
  "reachable alertingExample
   \<and> motionPersistenceCounter alertingExample \<le> MAX_PERSISTENCE_COUNTER
   \<and> motionPersistenceCounter saturatedExample = MAX_PERSISTENCE_COUNTER
   \<and> motionPersistenceCounter (step saturatedExample (MotionStep 50)) = MAX_PERSISTENCE_COUNTER
   \<and> motionPersistenceCounter (initial 0) = 0
   \<and> motionPersistenceCounter (step (initial 0) (MotionStep 6000)) = 0"
proof -
  have "motionPersistenceCounter saturatedExample = MAX_PERSISTENCE_COUNTER
        \<and> pirTriggered saturatedExample
        \<and> \<not> alertSystemStopped saturatedExample \<and> \<not> stopButtonPressed saturatedExample"
    by (simp add: saturatedExample_def initial_def MAX_PERSISTENCE_COUNTER_def)
  moreover have "motionPersistenceCounter (initial 0) = 0 \<and> \<not> pirTriggered (initial 0)"
    by (simp add: initial_def)
  ultimately show ?thesis
    using counter_within_bounds [of alertingExample 0]
      counter_within_bounds [of saturatedExample 50]
      counter_within_bounds [of "initial 0" 6000] reachable_alertingExample
    by (simp del: step.simps)
qed

text \<open>
  C9. In every reachable state a stopped system has counter 0. The iteration that enters
  the stopped mode leaves the counter at 0, and the PIR block does not change the counter
  while the system is stopped.
\<close>

theorem stopped_implies_counter_zero:
  "(reachable g \<longrightarrow> alertSystemStopped g \<longrightarrow> motionPersistenceCounter g = 0)
   \<and> (\<not> alertSystemStopped g \<and> alertSystemStopped (step g (MotionStep currentTime)) \<longrightarrow>
        motionPersistenceCounter (step g (MotionStep currentTime)) = 0)
   \<and> (alertSystemStopped g \<longrightarrow>
        motionPersistenceCounter (pirBlock currentTime g) = motionPersistenceCounter g)"
proof (intro conjI impI)
  assume "reachable g" "alertSystemStopped g"
  then show "motionPersistenceCounter g = 0"
    using reachable_stoppedAtZero [of g] by (simp add: stoppedAtZero_def)
next
  assume a: "\<not> alertSystemStopped g \<and> alertSystemStopped (step g (MotionStep currentTime))"
  then have "stoppedAtZero g" by (simp add: stoppedAtZero_def)
  then have "stoppedAtZero (step g (MotionStep currentTime))" by (rule step_stoppedAtZero)
  then show "motionPersistenceCounter (step g (MotionStep currentTime)) = 0"
    using a by (simp add: stoppedAtZero_def)
next
  assume "alertSystemStopped g"
  then show "motionPersistenceCounter (pirBlock currentTime g) = motionPersistenceCounter g"
    by (simp add: pirBlock_stopped)
qed

text \<open>Witness of C9: the reachable stopped state, the iteration that enters it, and a
  motion interrupt arriving while stopped.\<close>

theorem stopped_implies_counter_zero_witness:
  "reachable stoppedExample \<and> alertSystemStopped stoppedExample
   \<and> motionPersistenceCounter stoppedExample = 0
   \<and> \<not> alertSystemStopped pendingStopExample
   \<and> alertSystemStopped (step pendingStopExample (MotionStep 140))
   \<and> motionPersistenceCounter (step pendingStopExample (MotionStep 140)) = 0
   \<and> motionPersistenceCounter (pirBlock 160 (motionISR 150 stoppedExample)) = 0"
proof -
  have s: "alertSystemStopped stoppedExample" "motionPersistenceCounter stoppedExample = 0"
    by (simp_all add: stoppedExample_value)
  have p: "\<not> alertSystemStopped pendingStopExample"
    "alertSystemStopped (step pendingStopExample (MotionStep 140))"
    by (simp_all add: pendingStopExample_value alertingExample_value eval_defs)
  have m: "alertSystemStopped (motionISR 150 stoppedExample)"
    "motionPersistenceCounter (motionISR 150 stoppedExample) = 0"
    by (simp_all add: motionISR_def stoppedExample_value)
  show ?thesis
    using stopped_implies_counter_zero [of stoppedExample 0]
      stopped_implies_counter_zero [of pendingStopExample 140]
      stopped_implies_counter_zero [of "motionISR 150 stoppedExample" 160]
      reachable_stoppedExample s p m
    by (simp del: step.simps)
qed

section \<open>Decay\<close>

lemma quiet_cycle:
  assumes "\<not> alertSystemStopped g" "\<not> pirTriggered g" "\<not> stopButtonPressed g"
  shows "fst (motionDetectionCycle t g) = fst (emitBlock t (decayBlock t g))"
  using assms by (simp add: cycle_globals stopButtonBlock_def pirBlock_def)

lemma decayBlock_active:
  assumes "\<not> alertSystemStopped g"
  shows "decayBlock t g =
    (if t - lastCounterUpdate g \<ge> COUNTER_UPDATE_INTERVAL then
       (if t - lastPirTrigger g \<ge> PIR_DETECTION_WINDOW \<and> motionPersistenceCounter g > 0
        then g\<lparr>motionPersistenceCounter := motionPersistenceCounter g - 1,
               lastCounterUpdate := t\<rparr>
        else g\<lparr>lastCounterUpdate := t\<rparr>)
     else g)"
  using assms by (simp add: decayBlock_def Let_def)

lemma quiet_cycle_fields:
  assumes "\<not> alertSystemStopped g" "\<not> pirTriggered g" "\<not> stopButtonPressed g"
  shows "\<not> alertSystemStopped (step g (MotionStep t))"
    and "\<not> pirTriggered (step g (MotionStep t))"
    and "\<not> stopButtonPressed (step g (MotionStep t))"
    and "lastPirTrigger (step g (MotionStep t)) = lastPirTrigger g"
    and "lastCounterUpdate (step g (MotionStep t)) =
           (if t - lastCounterUpdate g \<ge> COUNTER_UPDATE_INTERVAL then t
            else lastCounterUpdate g)"
    and "t - lastCounterUpdate g \<ge> COUNTER_UPDATE_INTERVAL \<Longrightarrow>
         t - lastPirTrigger g \<ge> PIR_DETECTION_WINDOW \<Longrightarrow>
           unat (motionPersistenceCounter (step g (MotionStep t))) =
             unat (motionPersistenceCounter g) - 1"
    and "\<not> t - lastCounterUpdate g \<ge> COUNTER_UPDATE_INTERVAL \<Longrightarrow>
           motionPersistenceCounter (step g (MotionStep t)) = motionPersistenceCounter g"
  using assms unat_decrement [of "motionPersistenceCounter g"]
  by (simp_all add: quiet_cycle emitBlock_globals decayBlock_active split: if_splits)

text \<open>
  C8. Start in active mode with any counter value and no motion or stop event pending, and
  run iterations of the motion task with no interrupt in between, every decay tick finding
  the PIR silent for the detection window. Then the counter has gone down by exactly 1 per
  decay tick, stopping at 0 (the subtraction on \<open>nat\<close> is truncated), and the mode is
  still active.
\<close>

theorem decay_without_motion:
  assumes "\<not> alertSystemStopped g" "\<not> pirTriggered g" "\<not> stopButtonPressed g"
    and "pirSilentAtTicks (lastCounterUpdate g) (lastPirTrigger g) ts"
  shows "unat (motionPersistenceCounter (motionCycles g ts)) =
           unat (motionPersistenceCounter g) - decayTickCount (lastCounterUpdate g) ts
         \<and> \<not> alertSystemStopped (motionCycles g ts)"
  using assms
proof (induction ts arbitrary: g)
  case Nil
  then show ?case by simp
next
  case (Cons t ts)
  let ?g = "step g (MotionStep t)"
  note f = quiet_cycle_fields [OF Cons.prems(1-3), of t]
  show ?case
  proof (cases "t - lastCounterUpdate g \<ge> COUNTER_UPDATE_INTERVAL")
    case True
    then have s: "t - lastPirTrigger g \<ge> PIR_DETECTION_WINDOW"
      and r: "pirSilentAtTicks t (lastPirTrigger g) ts" using Cons.prems(4) by simp_all
    have "pirSilentAtTicks (lastCounterUpdate ?g) (lastPirTrigger ?g) ts"
      using r True by (simp add: f(4,5) del: step.simps)
    from Cons.IH [OF f(1-3) this] show ?thesis
      using True f(6) [OF True s] by (simp add: f(5) del: step.simps)
  next
    case False
    then have r: "pirSilentAtTicks (lastCounterUpdate g) (lastPirTrigger g) ts"
      using Cons.prems(4) by simp
    have "pirSilentAtTicks (lastCounterUpdate ?g) (lastPirTrigger ?g) ts"
      using r False by (simp add: f(4,5) del: step.simps)
    from Cons.IH [OF f(1-3) this] show ?thesis
      using False f(7) [OF False] by (simp add: f(5) del: step.simps)
  qed
qed

text \<open>Witness of C8: from counter 3, one tick gives 2, three ticks give 0, and a fourth
  tick leaves 0; the iterations at 20 and 6020 ms are between ticks.\<close>

theorem decay_without_motion_witness:
  "unat (motionPersistenceCounter (motionCycles decayExample [20, 6000])) = 2
   \<and> unat (motionPersistenceCounter
         (motionCycles decayExample [20, 6000, 6020, 12000, 18000])) = 0
   \<and> unat (motionPersistenceCounter
         (motionCycles decayExample [20, 6000, 6020, 12000, 18000, 24000])) = 0"
proof -
  have h: "\<not> alertSystemStopped decayExample" "\<not> pirTriggered decayExample"
    "\<not> stopButtonPressed decayExample"
    by (simp_all add: decayExample_def initial_def)
  have l: "lastCounterUpdate decayExample = 0" "lastPirTrigger decayExample = 0"
    "unat (motionPersistenceCounter decayExample) = 3"
    by (simp_all add: decayExample_def initial_def)
  have t: "pirSilentAtTicks 0 0 [20, 6000]"
    "pirSilentAtTicks 0 0 [20, 6000, 6020, 12000, 18000]"
    "pirSilentAtTicks 0 0 [20, 6000, 6020, 12000, 18000, 24000]"
    by (simp_all add: COUNTER_UPDATE_INTERVAL_def PIR_DETECTION_WINDOW_def)
  have n: "decayTickCount 0 [20, 6000] = 1"
    "decayTickCount 0 [20, 6000, 6020, 12000, 18000] = 3"
    "decayTickCount 0 [20, 6000, 6020, 12000, 18000, 24000] = 4"
    by (simp_all add: COUNTER_UPDATE_INTERVAL_def)
  show ?thesis
    using decay_without_motion [OF h, of "[20, 6000]"]
      decay_without_motion [OF h, of "[20, 6000, 6020, 12000, 18000]"]
      decay_without_motion [OF h, of "[20, 6000, 6020, 12000, 18000, 24000]"]
      t n
    by (simp add: l)
qed

section \<open>The alert command of an iteration\<close>

text \<open>
  C6, as stated, fails: in the iteration after the one that stopped the system the level is
  0 as before and the mode was already stopped, so nothing changed in this iteration, yet
  \<^verbatim>\<open>forceUpdate\<close> is set.
\<close>

theorem forceUpdate_counterexample:
  "\<not> (forceUpdate (cycleAlertData 160 stoppedExample) \<longleftrightarrow>
        (blinkRate (cycleAlertData 160 stoppedExample) \<noteq> lastBlinkRate stoppedExample
         \<or> (\<not> alertSystemStopped stoppedExample
             \<and> alertSystemStopped (step stoppedExample (MotionStep 160)))))"
  by (simp add: cycleAlertData_def stoppedExample_value eval_defs)

text \<open>
  C6, amended. The command sent at the end of an iteration has \<^verbatim>\<open>forceUpdate\<close> set if and
  only if its blink rate differs from the rate of the previous iteration or the mode is
  stopped at the end of this iteration (in every iteration while stopped, not only the one
  that entered the mode). The rate of the command is what the next iteration compares
  against.
\<close>

theorem forceUpdate_iff:
  "(forceUpdate (cycleAlertData currentTime g) \<longleftrightarrow>
      (blinkRate (cycleAlertData currentTime g) \<noteq> lastBlinkRate g
       \<or> alertSystemStopped (step g (MotionStep currentTime))))
   \<and> lastBlinkRate (step g (MotionStep currentTime)) = blinkRate (cycleAlertData currentTime g)"
  by (simp add: cycleAlertData_emit emitBlock_alertData cycle_globals lastBlinkRate_blocks)

text \<open>Witness of the amended C6 in the stopped state: unchanged rate, stopped mode,
  \<^verbatim>\<open>forceUpdate\<close> set.\<close>

theorem forceUpdate_iff_witness:
  "forceUpdate (cycleAlertData 160 stoppedExample)
   \<and> blinkRate (cycleAlertData 160 stoppedExample) = lastBlinkRate stoppedExample
   \<and> alertSystemStopped (step stoppedExample (MotionStep 160))"
  using forceUpdate_iff [of 160 stoppedExample]
  by (simp add: cycleAlertData_def stoppedExample_value eval_defs)

end
